theory Spec2Isabelle
  imports Complex_Main "HOL-Library.Sublist"
begin

section \<open>The SVD drivers of \<open>src/GSL/lapack-aux.c\<close>\<close>

text \<open>
  The file holds three C functions, \<open>svd_l_Rdd\<close>, \<open>svd_l_R\<close> and \<open>svd_l_C\<close>. Each
  checks the shapes of its output descriptors, copies the input matrix into a block from
  \<open>malloc\<close>, asks the LAPACK routine for a workspace length, allocates the workspace, runs
  the routine and frees its blocks. The routines \<open>dgesdd_\<close>, \<open>dgesvd_\<close> and \<open>zgesvd_\<close> and
  the allocator are external: the model takes them as an environment whose answers may
  depend on everything that happened before.

  What the model fixes about the platform: \<open>int\<close> has 32 bits, \<open>size_t\<close> has 64 bits,
  \<open>sizeof(int) = 4\<close>, \<open>sizeof(double) = 8\<close>. Signed overflow and a conversion from
  \<open>double\<close> to \<open>int\<close> that does not fit are undefined behaviour in C: the model stops
  there with the outcome \<open>Undefined\<close>. The macro \<open>DBG\<close> is taken as not defined, so
  \<open>DEBUGMSG\<close> expands to nothing and \<open>OK\<close> to \<open>return 0;\<close>.
\<close>

subsection \<open>C values\<close>

type_synonym addr = nat

text \<open>
  A pointer to a \<open>double\<close>: the array it points into and the offset from the start of that
  array, counted in doubles. The arrays are the objects of the C program, each array of
  the caller and each block from \<open>malloc\<close> being one; \<open>a + 1\<close> for a pointer \<open>a = (b, i)\<close>
  is \<open>(b, i + 1)\<close>. Two pointers into one array may name overlapping runs of cells.
\<close>

type_synonym ptr = "addr \<times> nat"

text \<open>A \<open>double\<close>: a finite value, or one of the infinities and NaNs.\<close>

datatype cdouble = Finite real | NotFinite

definition INT_MIN :: int where
  "INT_MIN = - 2147483648"

definition INT_MAX :: int where
  "INT_MAX = 2147483647"

definition in_int :: "int \<Rightarrow> bool" where
  "in_int i = (INT_MIN \<le> i \<and> i \<le> INT_MAX)"

text \<open>\<open>a * b\<close> on \<open>int\<close>: \<open>None\<close> where the product overflows.\<close>

definition int_mul :: "int \<Rightarrow> int \<Rightarrow> int option" where
  "int_mul a b = (if in_int (a * b) then Some (a * b) else None)"

text \<open>
  The conversion of an \<open>int\<close> to \<open>size_t\<close> in \<open>i * sizeof(T)\<close>, and the product on
  \<open>size_t\<close>, which wraps around.
\<close>

definition SIZE_WIDTH :: nat where
  "SIZE_WIDTH = 64"

definition size_of_int :: "int \<Rightarrow> nat" where
  "size_of_int i = nat (i mod 2 ^ SIZE_WIDTH)"

definition size_mul :: "nat \<Rightarrow> nat \<Rightarrow> nat" where
  "size_mul a b = (a * b) mod 2 ^ SIZE_WIDTH"

definition sizeof_double :: nat where
  "sizeof_double = 8"

definition sizeof_int :: nat where
  "sizeof_int = 4"

text \<open>\<open>k * sizeof(T)\<close> for an \<open>int k\<close>, as the argument of \<open>malloc\<close> and \<open>memcpy\<close>.\<close>

definition bytes :: "int \<Rightarrow> nat \<Rightarrow> nat" where
  "bytes k sz = size_mul (size_of_int k) sz"

text \<open>
  \<open>ceil\<close> of \<open>math.h\<close> is exact. \<open>2 * x\<close> on \<open>double\<close> is exact unless it overflows to
  an infinity, and then the conversion to \<open>int\<close> that follows is undefined as it is for
  the exact product, which is far out of the range of \<open>int\<close>.
\<close>

fun ceil :: "cdouble \<Rightarrow> cdouble" where
  "ceil (Finite x) = Finite (of_int \<lceil>x\<rceil>)"
| "ceil NotFinite = NotFinite"

fun double_of_int :: "int \<Rightarrow> cdouble" where
  "double_of_int i = Finite (of_int i)"

fun double_mul :: "cdouble \<Rightarrow> cdouble \<Rightarrow> cdouble" where
  "double_mul (Finite x) (Finite y) = Finite (x * y)"
| "double_mul _ _ = NotFinite"

text \<open>
  The conversion of a \<open>double\<close> to \<open>int\<close> drops the fraction; it is undefined where the
  integral part is not a value of \<open>int\<close>.
\<close>

fun int_of_double :: "cdouble \<Rightarrow> int option" where
  "int_of_double (Finite x) =
     (let t = (if 0 \<le> x then \<lfloor>x\<rfloor> else \<lceil>x\<rceil>) in if in_int t then Some t else None)"
| "int_of_double NotFinite = None"

definition MIN_of :: "int \<Rightarrow> int \<Rightarrow> int" where
  "MIN_of A B = (if A < B then A else B)"

definition BAD_SIZE :: int where
  "BAD_SIZE = 1000"

definition BAD_CODE :: int where
  "BAD_CODE = 1001"

definition MEM :: int where
  "MEM = 1002"

definition BAD_FILE :: int where
  "BAD_FILE = 1003"

subsection \<open>The kernel's arguments and results\<close>

datatype routine = DGESDD | DGESVD | ZGESVD

text \<open>
  The work pointer of a kernel call is the address of the local \<open>ans\<close> in the size query
  and a block from \<open>malloc\<close> in the execution call.
\<close>

datatype workptr = Local_ans | Block addr

text \<open>
  The arguments of one call, in the order of the C prototypes. \<open>dgesdd_\<close> has one job
  flag, the other two have two; \<open>arg_aux\<close> is \<open>iwork\<close> of \<open>dgesdd_\<close>, \<open>rwork\<close> of
  \<open>zgesvd_\<close> and absent for \<open>dgesvd_\<close>. The scalars are passed by address in C; the
  routines leave them as they are, and the model passes their values.
\<close>

record kargs =
  arg_routine :: routine
  arg_jobs :: "int list"
  arg_m :: int
  arg_n :: int
  arg_a :: ptr
  arg_lda :: int
  arg_s :: ptr
  arg_u :: ptr
  arg_ldu :: int
  arg_vt :: ptr
  arg_ldvt :: int
  arg_work :: workptr
  arg_lwork :: int
  arg_aux :: "addr option"

text \<open>
  What a call leaves behind: the doubles it writes from the start of each of its four
  array arguments (\<open>None\<close> for an array it leaves alone), the value in the first cell of
  the work array (the recommended length) and the status \<open>info\<close>. The routines are taken
  to write their array arguments and \<open>info\<close> and nothing else.
\<close>

record kres =
  out_a :: "cdouble list option"
  out_s :: "cdouble list option"
  out_u :: "cdouble list option"
  out_vt :: "cdouble list option"
  out_work1 :: cdouble
  out_info :: int

subsection \<open>The store, the allocator and the event trace\<close>

datatype event =
    Malloc nat "addr option"
  | Memcpy addr ptr nat
  | Kernel kargs kres
  | Free addr

text \<open>
  \<open>mem\<close> holds the contents of the arrays of doubles (the caller's, and the private copy
  once it has been filled), \<open>live\<close> the blocks \<open>malloc\<close> has handed out and \<open>free\<close>
  has not taken back, \<open>brk\<close> the next fresh address, \<open>trace\<close> every call to the
  allocator, to \<open>memcpy\<close> and to the kernel so far, oldest first. The contents of the
  scratch arrays (\<open>iwk\<close>, \<open>rwork\<close>, \<open>work\<close>) are seen by the kernel alone and are not
  kept.
\<close>

record state =
  mem :: "addr \<rightharpoonup> cdouble list"
  live :: "addr list"
  brk :: addr
  trace :: "event list"

record env =
  malloc_ok :: "event list \<Rightarrow> nat \<Rightarrow> bool"
  kernel :: "event list \<Rightarrow> (addr \<rightharpoonup> cdouble list) \<Rightarrow> kargs \<Rightarrow> kres"

datatype outcome = Returned int | Undefined

definition malloc :: "env \<Rightarrow> nat \<Rightarrow> state \<Rightarrow> addr option \<times> state" where
  "malloc E sz \<sigma> =
     (if malloc_ok E (trace \<sigma>) sz
      then (Some (brk \<sigma>),
            \<sigma>\<lparr>live := brk \<sigma> # live \<sigma>, brk := Suc (brk \<sigma>),
              trace := trace \<sigma> @ [Malloc sz (Some (brk \<sigma>))]\<rparr>)
      else (None, \<sigma>\<lparr>trace := trace \<sigma> @ [Malloc sz None]\<rparr>))"

definition free :: "addr \<Rightarrow> state \<Rightarrow> state" where
  "free p \<sigma> =
     \<sigma>\<lparr>mem := (mem \<sigma>)(p := None), live := remove1 p (live \<sigma>),
       trace := trace \<sigma> @ [Free p]\<rparr>"

text \<open>
  The \<open>n\<close> doubles at a pointer: defined when the pointer and the \<open>n\<close> cells after it lie
  within an array.
\<close>

definition load :: "(addr \<rightharpoonup> cdouble list) \<Rightarrow> ptr \<Rightarrow> nat \<Rightarrow> cdouble list option" where
  "load \<mu> p n =
     (case \<mu> (fst p) of
        None \<Rightarrow> None
      | Some xs \<Rightarrow> if length xs < snd p + n then None else Some (take n (drop (snd p) xs)))"

text \<open>
  Two runs of cells overlap when they lie in the same array and share a cell: \<open>n\<close> cells
  at \<open>p\<close> and \<open>n'\<close> cells at \<open>p'\<close>.
\<close>

definition overlap :: "ptr \<Rightarrow> nat \<Rightarrow> ptr \<Rightarrow> nat \<Rightarrow> bool" where
  "overlap p n p' n' =
     (fst p = fst p' \<and> snd p < snd p' + n' \<and> snd p' < snd p + n \<and> 0 < n \<and> 0 < n')"

text \<open>
  \<open>memcpy(dst, src, n)\<close> into a block of exactly \<open>n\<close> bytes, \<open>n\<close> a multiple of 8: the
  block then holds the \<open>n / 8\<close> doubles at the source. Reading past the end of the array
  the source points into, or from no array at all, is undefined.
\<close>

definition memcpy :: "addr \<Rightarrow> ptr \<Rightarrow> nat \<Rightarrow> state \<Rightarrow> state option" where
  "memcpy dst src n \<sigma> =
     (case load (mem \<sigma>) src (n div sizeof_double) of
        None \<Rightarrow> None
      | Some xs \<Rightarrow>
          Some (\<sigma>\<lparr>mem := (mem \<sigma>)(dst \<mapsto> xs),
                   trace := trace \<sigma> @ [Memcpy dst src n]\<rparr>))"

text \<open>
  Writing the doubles \<open>new\<close> over the cells of \<open>old\<close> from offset \<open>i\<close> on; the array keeps
  its length.
\<close>

definition overwrite :: "cdouble list \<Rightarrow> nat \<Rightarrow> cdouble list \<Rightarrow> cdouble list" where
  "overwrite old i new = take (length old) (take i old @ new @ drop (i + length new) old)"

text \<open>
  What a kernel call does to the array argument at \<open>p\<close>, an array of \<open>ext\<close> doubles to the
  routine: the doubles it writes go over the cells from \<open>p\<close> on, at most \<open>ext\<close> of them.
  The other cells of the array \<open>p\<close> points into stay as they are; nothing is written
  past the end of that array, or through a pointer into no array.
\<close>

definition store :: "ptr \<Rightarrow> nat \<Rightarrow> cdouble list option \<Rightarrow> (addr \<rightharpoonup> cdouble list)
    \<Rightarrow> (addr \<rightharpoonup> cdouble list)" where
  "store p ext new \<mu> =
     (case new of
        None \<Rightarrow> \<mu>
      | Some xs \<Rightarrow>
          (case \<mu> (fst p) of
             None \<Rightarrow> \<mu>
           | Some old \<Rightarrow> \<mu>(fst p \<mapsto> overwrite old (snd p) (take ext xs))))"

text \<open>
  The doubles one matrix element takes: a \<open>double\<close> in \<open>dgesdd_\<close> and \<open>dgesvd_\<close>, a
  \<open>doublecomplex\<close> of two in \<open>zgesvd_\<close>.
\<close>

definition cell_width :: "routine \<Rightarrow> nat" where
  "cell_width r = (case r of DGESDD \<Rightarrow> 1 | DGESVD \<Rightarrow> 1 | ZGESVD \<Rightarrow> 2)"

text \<open>
  One call of the kernel: the environment answers, the arrays the call was given are
  written, the call is recorded. The caller reads \<open>ans\<close> (after the query) and \<open>res\<close>.
  The extents of the arrays are those LAPACK gives them when all the vectors are asked
  for, as the drivers do: \<open>a\<close> is \<open>lda\<close> by \<open>n\<close>, \<open>s\<close> has \<open>min(m,n)\<close> entries, all of
  them doubles, \<open>u\<close> is \<open>ldu\<close> by \<open>m\<close> and \<open>vt\<close> is \<open>ldvt\<close> by \<open>n\<close>.
\<close>

definition call_kernel :: "env \<Rightarrow> kargs \<Rightarrow> state \<Rightarrow> (cdouble \<times> int) \<times> state" where
  "call_kernel E args \<sigma> =
     (let r = kernel E (trace \<sigma>) (mem \<sigma>) args;
          w = cell_width (arg_routine args) in
      ((out_work1 r, out_info r),
       \<sigma>\<lparr>mem := store (arg_vt args) (w * nat (arg_ldvt args * arg_n args)) (out_vt r)
                (store (arg_u args) (w * nat (arg_ldu args * arg_m args)) (out_u r)
                (store (arg_s args) (nat (MIN_of (arg_m args) (arg_n args))) (out_s r)
                (store (arg_a args) (w * nat (arg_lda args * arg_n args)) (out_a r) (mem \<sigma>)))),
         trace := trace \<sigma> @ [Kernel args r]\<rparr>))"

definition dgesdd :: "env \<Rightarrow> int \<Rightarrow> int \<Rightarrow> int \<Rightarrow> ptr \<Rightarrow> int \<Rightarrow> ptr \<Rightarrow> ptr \<Rightarrow> int \<Rightarrow> ptr \<Rightarrow> int
    \<Rightarrow> workptr \<Rightarrow> int \<Rightarrow> addr \<Rightarrow> state \<Rightarrow> (cdouble \<times> int) \<times> state" where
  "dgesdd E job m n a lda s u ldu vt ldvt work lwork iwork \<sigma> =
     call_kernel E \<lparr>arg_routine = DGESDD, arg_jobs = [job], arg_m = m, arg_n = n, arg_a = a,
       arg_lda = lda, arg_s = s, arg_u = u, arg_ldu = ldu, arg_vt = vt, arg_ldvt = ldvt,
       arg_work = work, arg_lwork = lwork, arg_aux = Some iwork\<rparr> \<sigma>"

definition dgesvd :: "env \<Rightarrow> int \<Rightarrow> int \<Rightarrow> int \<Rightarrow> int \<Rightarrow> ptr \<Rightarrow> int \<Rightarrow> ptr \<Rightarrow> ptr \<Rightarrow> int \<Rightarrow> ptr
    \<Rightarrow> int \<Rightarrow> workptr \<Rightarrow> int \<Rightarrow> state \<Rightarrow> (cdouble \<times> int) \<times> state" where
  "dgesvd E jobu jobvt m n a lda s u ldu vt ldvt work lwork \<sigma> =
     call_kernel E \<lparr>arg_routine = DGESVD, arg_jobs = [jobu, jobvt], arg_m = m, arg_n = n,
       arg_a = a, arg_lda = lda, arg_s = s, arg_u = u, arg_ldu = ldu, arg_vt = vt,
       arg_ldvt = ldvt, arg_work = work, arg_lwork = lwork, arg_aux = None\<rparr> \<sigma>"

definition zgesvd :: "env \<Rightarrow> int \<Rightarrow> int \<Rightarrow> int \<Rightarrow> int \<Rightarrow> ptr \<Rightarrow> int \<Rightarrow> ptr \<Rightarrow> ptr \<Rightarrow> int \<Rightarrow> ptr
    \<Rightarrow> int \<Rightarrow> workptr \<Rightarrow> int \<Rightarrow> addr \<Rightarrow> state \<Rightarrow> (cdouble \<times> int) \<times> state" where
  "zgesvd E jobu jobvt m n a lda s u ldu vt ldvt work lwork rwork \<sigma> =
     call_kernel E \<lparr>arg_routine = ZGESVD, arg_jobs = [jobu, jobvt], arg_m = m, arg_n = n,
       arg_a = a, arg_lda = lda, arg_s = s, arg_u = u, arg_ldu = ldu, arg_vt = vt,
       arg_ldvt = ldvt, arg_work = work, arg_lwork = lwork, arg_aux = Some rwork\<rparr> \<sigma>"

subsection \<open>The three drivers\<close>

text \<open>
  Each is the C function statement by statement. \<open>REQUIRES\<close> and \<open>CHECK\<close> return at
  once; the calls of \<open>free\<close> stand after the last \<open>CHECK\<close>. The local names of the C
  code are kept; the states are numbered in the order of the statements. The pointer
  \<open>B\<close> that \<open>malloc\<close> returns points to the start of its block, \<open>(B, 0)\<close>.
\<close>

definition svd_l_Rdd :: "env \<Rightarrow> int \<Rightarrow> int \<Rightarrow> ptr \<Rightarrow> int \<Rightarrow> int \<Rightarrow> ptr \<Rightarrow> int \<Rightarrow> ptr \<Rightarrow> int \<Rightarrow> int
    \<Rightarrow> ptr \<Rightarrow> state \<Rightarrow> outcome \<times> state" where
  "svd_l_Rdd E ar ac ap ur uc up sn sp vr vc vp \<sigma>0 =
    (let m = ar; n = ac; q = MIN_of m n in
     if \<not> (ur = m \<and> uc = m \<and> sn = q \<and> vr = n \<and> vc = n) then (Returned BAD_SIZE, \<sigma>0) else
     (case int_mul m n of None \<Rightarrow> (Undefined, \<sigma>0) | Some mn \<Rightarrow>
     (case malloc E (bytes mn sizeof_double) \<sigma>0 of
        (None, \<sigma>1) \<Rightarrow> (Returned MEM, \<sigma>1) | (Some B, \<sigma>1) \<Rightarrow>
     (case memcpy B ap (bytes mn sizeof_double) \<sigma>1 of
        None \<Rightarrow> (Undefined, \<sigma>1) | Some \<sigma>2 \<Rightarrow>
     (case int_mul 8 q of None \<Rightarrow> (Undefined, \<sigma>2) | Some q8 \<Rightarrow>
     (case malloc E (bytes q8 sizeof_int) \<sigma>2 of
        (None, \<sigma>3) \<Rightarrow> (Returned MEM, \<sigma>3) | (Some iwk, \<sigma>3) \<Rightarrow>
     (let lwk = - 1; job = 65 in
     (case dgesdd E job m n (B, 0) m sp up m vp n Local_ans lwk iwk \<sigma>3 of ((ans, res), \<sigma>4) \<Rightarrow>
     (case int_of_double (double_mul (double_of_int 2) (ceil ans)) of
        None \<Rightarrow> (Undefined, \<sigma>4) | Some lwk \<Rightarrow>
     (case malloc E (bytes lwk sizeof_double) \<sigma>4 of
        (None, \<sigma>5) \<Rightarrow> (Returned MEM, \<sigma>5) | (Some workv, \<sigma>5) \<Rightarrow>
     (case dgesdd E job m n (B, 0) m sp up m vp n (Block workv) lwk iwk \<sigma>5 of ((ans', res), \<sigma>6) \<Rightarrow>
     if res \<noteq> 0 then (Returned res, \<sigma>6) else
     (let \<sigma>7 = free iwk \<sigma>6;
          \<sigma>8 = free workv \<sigma>7;
          \<sigma>9 = free B \<sigma>8 in
      (Returned 0, \<sigma>9)))))))))))))"

definition svd_l_R :: "env \<Rightarrow> int \<Rightarrow> int \<Rightarrow> ptr \<Rightarrow> int \<Rightarrow> int \<Rightarrow> ptr \<Rightarrow> int \<Rightarrow> ptr \<Rightarrow> int \<Rightarrow> int
    \<Rightarrow> ptr \<Rightarrow> state \<Rightarrow> outcome \<times> state" where
  "svd_l_R E ar ac ap ur uc up sn sp vr vc vp \<sigma>0 =
    (let m = ar; n = ac; q = MIN_of m n in
     if \<not> (ur = m \<and> uc = m \<and> sn = q \<and> vr = n \<and> vc = n) then (Returned BAD_SIZE, \<sigma>0) else
     (case int_mul m n of None \<Rightarrow> (Undefined, \<sigma>0) | Some mn \<Rightarrow>
     (case malloc E (bytes mn sizeof_double) \<sigma>0 of
        (None, \<sigma>1) \<Rightarrow> (Returned MEM, \<sigma>1) | (Some B, \<sigma>1) \<Rightarrow>
     (case memcpy B ap (bytes mn sizeof_double) \<sigma>1 of
        None \<Rightarrow> (Undefined, \<sigma>1) | Some \<sigma>2 \<Rightarrow>
     (let lwork = - 1; jobu = 65; jobvt = 65 in
     (case dgesvd E jobu jobvt m n (B, 0) m sp up m vp n Local_ans lwork \<sigma>2 of ((ans, res), \<sigma>3) \<Rightarrow>
     (case int_of_double (ceil ans) of
        None \<Rightarrow> (Undefined, \<sigma>3) | Some lwork \<Rightarrow>
     (case malloc E (bytes lwork sizeof_double) \<sigma>3 of
        (None, \<sigma>4) \<Rightarrow> (Returned MEM, \<sigma>4) | (Some work, \<sigma>4) \<Rightarrow>
     (case dgesvd E jobu jobvt m n (B, 0) m sp up m vp n (Block work) lwork \<sigma>4 of ((ans', res), \<sigma>5) \<Rightarrow>
     if res \<noteq> 0 then (Returned res, \<sigma>5) else
     (let \<sigma>6 = free work \<sigma>5;
          \<sigma>7 = free B \<sigma>6 in
      (Returned 0, \<sigma>7)))))))))))"

text \<open>
  In the complex driver the size of the copy is \<open>2*m*n*sizeof(double)\<close> in \<open>malloc\<close> and
  \<open>m*n*2*sizeof(double)\<close> in \<open>memcpy\<close>: the products on \<open>int\<close> are taken from the left,
  as C does.
\<close>

definition svd_l_C :: "env \<Rightarrow> int \<Rightarrow> int \<Rightarrow> ptr \<Rightarrow> int \<Rightarrow> int \<Rightarrow> ptr \<Rightarrow> int \<Rightarrow> ptr \<Rightarrow> int \<Rightarrow> int
    \<Rightarrow> ptr \<Rightarrow> state \<Rightarrow> outcome \<times> state" where
  "svd_l_C E ar ac ap ur uc up sn sp vr vc vp \<sigma>0 =
    (let m = ar; n = ac; q = MIN_of m n in
     if \<not> (ur = m \<and> uc = m \<and> sn = q \<and> vr = n \<and> vc = n) then (Returned BAD_SIZE, \<sigma>0) else
     (case int_mul 2 m of None \<Rightarrow> (Undefined, \<sigma>0) | Some m2 \<Rightarrow>
     (case int_mul m2 n of None \<Rightarrow> (Undefined, \<sigma>0) | Some m2n \<Rightarrow>
     (case malloc E (bytes m2n sizeof_double) \<sigma>0 of
        (None, \<sigma>1) \<Rightarrow> (Returned MEM, \<sigma>1) | (Some B, \<sigma>1) \<Rightarrow>
     (case int_mul m n of None \<Rightarrow> (Undefined, \<sigma>1) | Some mn \<Rightarrow>
     (case int_mul mn 2 of None \<Rightarrow> (Undefined, \<sigma>1) | Some mn2 \<Rightarrow>
     (case memcpy B ap (bytes mn2 sizeof_double) \<sigma>1 of
        None \<Rightarrow> (Undefined, \<sigma>1) | Some \<sigma>2 \<Rightarrow>
     (case int_mul 5 q of None \<Rightarrow> (Undefined, \<sigma>2) | Some q5 \<Rightarrow>
     (case malloc E (bytes q5 sizeof_double) \<sigma>2 of
        (None, \<sigma>3) \<Rightarrow> (Returned MEM, \<sigma>3) | (Some rwork, \<sigma>3) \<Rightarrow>
     (let lwork = - 1; jobu = 65; jobvt = 65 in
     (case zgesvd E jobu jobvt m n (B, 0) m sp up m vp n Local_ans lwork rwork \<sigma>3 of ((ans, res), \<sigma>4) \<Rightarrow>
     (case int_of_double (ceil ans) of
        None \<Rightarrow> (Undefined, \<sigma>4) | Some lwork \<Rightarrow>
     (case int_mul lwork 2 of None \<Rightarrow> (Undefined, \<sigma>4) | Some lwork2 \<Rightarrow>
     (case malloc E (bytes lwork2 sizeof_double) \<sigma>4 of
        (None, \<sigma>5) \<Rightarrow> (Returned MEM, \<sigma>5) | (Some work, \<sigma>5) \<Rightarrow>
     (case zgesvd E jobu jobvt m n (B, 0) m sp up m vp n (Block work) lwork rwork \<sigma>5 of ((ans', res), \<sigma>6) \<Rightarrow>
     if res \<noteq> 0 then (Returned res, \<sigma>6) else
     (let \<sigma>7 = free work \<sigma>6;
          \<sigma>8 = free rwork \<sigma>7;
          \<sigma>9 = free B \<sigma>8 in
      (Returned 0, \<sigma>9)))))))))))))))))"

text \<open>The three entry points under one name, for statements about all of them.\<close>

datatype variant = Rdd | R | C

definition invoke :: "variant \<Rightarrow> env \<Rightarrow> int \<Rightarrow> int \<Rightarrow> ptr \<Rightarrow> int \<Rightarrow> int \<Rightarrow> ptr \<Rightarrow> int \<Rightarrow> ptr \<Rightarrow> int
    \<Rightarrow> int \<Rightarrow> ptr \<Rightarrow> state \<Rightarrow> outcome \<times> state" where
  "invoke v E ar ac ap ur uc up sn sp vr vc vp \<sigma> =
     (case v of
        Rdd \<Rightarrow> svd_l_Rdd E ar ac ap ur uc up sn sp vr vc vp \<sigma>
      | R \<Rightarrow> svd_l_R E ar ac ap ur uc up sn sp vr vc vp \<sigma>
      | C \<Rightarrow> svd_l_C E ar ac ap ur uc up sn sp vr vc vp \<sigma>)"

subsection \<open>Reading a trace\<close>

text \<open>The events of one invocation: what the final trace holds beyond the initial one.\<close>

definition events_during :: "state \<Rightarrow> state \<Rightarrow> event list" where
  "events_during \<sigma> \<sigma>' = drop (length (trace \<sigma>)) (trace \<sigma>')"

fun kernel_calls :: "event list \<Rightarrow> (kargs \<times> kres) list" where
  "kernel_calls [] = []"
| "kernel_calls (Kernel a r # es) = (a, r) # kernel_calls es"
| "kernel_calls (Malloc sz p # es) = kernel_calls es"
| "kernel_calls (Memcpy d s k # es) = kernel_calls es"
| "kernel_calls (Free p # es) = kernel_calls es"

fun mallocs :: "event list \<Rightarrow> (nat \<times> addr option) list" where
  "mallocs [] = []"
| "mallocs (Malloc sz p # es) = (sz, p) # mallocs es"
| "mallocs (Kernel a r # es) = mallocs es"
| "mallocs (Memcpy d s k # es) = mallocs es"
| "mallocs (Free p # es) = mallocs es"

definition statuses :: "event list \<Rightarrow> int list" where
  "statuses es = map (\<lambda>c. out_info (snd c)) (kernel_calls es)"

definition answers :: "event list \<Rightarrow> cdouble list" where
  "answers es = map (\<lambda>c. out_work1 (snd c)) (kernel_calls es)"

definition lworks :: "event list \<Rightarrow> int list" where
  "lworks es = map (\<lambda>c. arg_lwork (fst c)) (kernel_calls es)"

definition work_ptrs :: "event list \<Rightarrow> workptr list" where
  "work_ptrs es = map (\<lambda>c. arg_work (fst c)) (kernel_calls es)"

definition matrix_ptrs :: "event list \<Rightarrow> ptr list" where
  "matrix_ptrs es = map (\<lambda>c. arg_a (fst c)) (kernel_calls es)"

definition alloc_sizes :: "event list \<Rightarrow> nat list" where
  "alloc_sizes es = map fst (mallocs es)"

definition alloc_results :: "event list \<Rightarrow> addr option list" where
  "alloc_results es = map snd (mallocs es)"

text \<open>
  The bytes each driver asks for as workspace of length \<open>lwork\<close>: \<open>lwk*sizeof(double)\<close>,
  \<open>lwork*sizeof(double)\<close> and \<open>lwork*2*sizeof(double)\<close>.
\<close>

definition work_bytes :: "variant \<Rightarrow> int \<Rightarrow> nat" where
  "work_bytes v lwork =
     (case v of
        Rdd \<Rightarrow> bytes lwork sizeof_double
      | R \<Rightarrow> bytes lwork sizeof_double
      | C \<Rightarrow> bytes (lwork * 2) sizeof_double)"

subsection \<open>A concrete setting\<close>

text \<open>
  The 1 by 1 matrix \<open>[[5]]\<close> in the array 0, the outputs \<open>u\<close>, \<open>s\<close>, \<open>v\<close> in the arrays 1,
  2, 3, nothing allocated yet. Each array has two cells, so that it also holds a 1 by 1
  complex matrix (\<open>5 + 0i\<close>) or, in the array 0, the 2 by 1 real matrix of \<open>5\<close> and \<open>0\<close>;
  the array 1 has four, enough for a 2 by 2 left factor. The sample kernel recommends \<open>5/2\<close> cells and writes the status \<open>qs\<close> in
  the query, and writes the decomposition and the status \<open>xs\<close> in the execution call. The
  sample allocator lets the first \<open>k\<close> requests succeed.
\<close>

definition ex_mem :: "addr \<rightharpoonup> cdouble list" where
  "ex_mem = [0 \<mapsto> [Finite 5, Finite 0], 1 \<mapsto> [Finite 0, Finite 0, Finite 0, Finite 0],
             2 \<mapsto> [Finite 0, Finite 0], 3 \<mapsto> [Finite 0, Finite 0]]"

definition ex_state :: state where
  "ex_state = \<lparr>mem = ex_mem, live = [], brk = 4, trace = []\<rparr>"

definition ex_kernel :: "int \<Rightarrow> int \<Rightarrow> event list \<Rightarrow> (addr \<rightharpoonup> cdouble list) \<Rightarrow> kargs \<Rightarrow> kres" where
  "ex_kernel qs xs tr \<mu> args =
     (if arg_work args = Local_ans
      then \<lparr>out_a = None, out_s = None, out_u = None, out_vt = None,
             out_work1 = Finite (5 / 2), out_info = qs\<rparr>
      else \<lparr>out_a = Some [Finite 0], out_s = Some [Finite 5], out_u = Some [Finite 1],
             out_vt = Some [Finite 1], out_work1 = Finite 3, out_info = xs\<rparr>)"

definition ex_malloc_ok :: "nat \<Rightarrow> event list \<Rightarrow> nat \<Rightarrow> bool" where
  "ex_malloc_ok k tr sz = (length (mallocs tr) < k)"

definition ex_env :: "nat \<Rightarrow> int \<Rightarrow> int \<Rightarrow> env" where
  "ex_env k qs xs = \<lparr>malloc_ok = ex_malloc_ok k, kernel = ex_kernel qs xs\<rparr>"

text \<open>
  The sample invocations: every descriptor of the right shape; the left factor declared
  2 by 1; the input array passed a second time as the left factor; the 2 by 1 matrix in
  the array 0 with its second cell passed as the array of singular values; and the 1 by 1
  matrix in the first cell of the array 0 with the second cell passed as the array of
  singular values.
\<close>

definition ex_run :: "variant \<Rightarrow> nat \<Rightarrow> int \<Rightarrow> int \<Rightarrow> outcome \<times> state" where
  "ex_run v k qs xs =
     invoke v (ex_env k qs xs) 1 1 (0, 0) 1 1 (1, 0) 1 (2, 0) 1 1 (3, 0) ex_state"

definition ex_events :: "variant \<Rightarrow> nat \<Rightarrow> int \<Rightarrow> int \<Rightarrow> event list" where
  "ex_events v k qs xs = events_during ex_state (snd (ex_run v k qs xs))"

definition ex_mismatch :: "variant \<Rightarrow> outcome \<times> state" where
  "ex_mismatch v = invoke v (ex_env 3 0 0) 1 1 (0, 0) 2 1 (1, 0) 1 (2, 0) 1 1 (3, 0) ex_state"

definition ex_aliased :: "variant \<Rightarrow> outcome \<times> state" where
  "ex_aliased v = invoke v (ex_env 3 0 0) 1 1 (0, 0) 1 1 (0, 0) 1 (2, 0) 1 1 (3, 0) ex_state"

definition ex_overlapped :: "variant \<Rightarrow> outcome \<times> state" where
  "ex_overlapped v = invoke v (ex_env 3 0 0) 2 1 (0, 0) 2 2 (1, 0) 1 (0, 1) 1 1 (3, 0) ex_state"

definition ex_adjacent :: "variant \<Rightarrow> outcome \<times> state" where
  "ex_adjacent v = invoke v (ex_env 3 0 0) 1 1 (0, 0) 1 1 (1, 0) 1 (0, 1) 1 1 (3, 0) ex_state"

section \<open>The paths through the drivers\<close>

subsection \<open>The primitives in a form that simplifies\<close>

lemma MIN_of_min: "MIN_of a b = min a b"
  by (simp add: MIN_of_def min_def)

lemma memcpy_if:
  "memcpy dst src n \<sigma> =
     (if load (mem \<sigma>) src (n div sizeof_double) \<noteq> None
      then Some (\<sigma>\<lparr>mem := (mem \<sigma>)(dst \<mapsto> the (load (mem \<sigma>) src (n div sizeof_double))),
                    trace := trace \<sigma> @ [Memcpy dst src n]\<rparr>)
      else None)"
  by (simp add: memcpy_def split: option.split)

text \<open>What \<open>memcpy\<close> leaves in the block: the doubles at the source.\<close>

lemma memcpy_copies:
  assumes "memcpy dst src n \<sigma> = Some \<sigma>'"
  shows "load (mem \<sigma>) src (n div sizeof_double) = mem \<sigma>' dst"
  using assms by (auto simp: memcpy_def split: option.splits)

text \<open>
  The workspace length of \<open>svd_l_Rdd\<close>, \<open>2*ceil(ans)\<close>, and of the other two,
  \<open>ceil(ans)\<close>, as values of \<open>int\<close>.
\<close>

lemma lwk_Rdd:
  "int_of_double (double_mul (double_of_int 2) (ceil a)) =
     (case a of
        Finite x \<Rightarrow> if in_int (2 * \<lceil>x\<rceil>) then Some (2 * \<lceil>x\<rceil>) else None
      | NotFinite \<Rightarrow> None)"
proof (cases a)
  case (Finite x)
  have e: "2 * real_of_int \<lceil>x\<rceil> = of_int (2 * \<lceil>x\<rceil>)"
    by simp
  show ?thesis
    unfolding Finite by (auto simp: e Let_def simp del: of_int_mult)
next
  case NotFinite
  then show ?thesis by simp
qed

lemma lwork_R:
  "int_of_double (ceil a) =
     (case a of
        Finite x \<Rightarrow> if in_int \<lceil>x\<rceil> then Some \<lceil>x\<rceil> else None
      | NotFinite \<Rightarrow> None)"
  by (cases a) (auto simp: Let_def)

text \<open>
  A count that is not negative and fits an \<open>int\<close> gives that many elements: nothing
  wraps around.
\<close>

lemma bytes_exact:
  assumes "0 \<le> k" and "in_int k" and "sz \<le> 8"
  shows "bytes k sz = nat k * sz"
proof -
  have k: "k < 2 ^ 31"
    using assms(2) by (simp add: in_int_def INT_MAX_def)
  have "k mod 2 ^ 64 = k"
    using assms(1) k by (simp add: mod_pos_pos_trivial)
  moreover have "nat k * sz < 2 ^ 64"
  proof -
    have "nat k \<le> 2 ^ 31"
      using assms(1) k by (simp add: nat_le_iff)
    then have "nat k * sz \<le> 2 ^ 31 * 8"
      using assms(3) by (rule mult_le_mono)
    then show ?thesis
      by simp
  qed
  ultimately show ?thesis
    by (simp add: bytes_def size_mul_def size_of_int_def SIZE_WIDTH_def)
qed

lemma split_run: "(case r of (a, b) \<Rightarrow> P a b) \<Longrightarrow> r = (x, y) \<Longrightarrow> P x y"
  by simp

subsection \<open>Every way a driver can end\<close>

text \<open>
  For each driver, in the order of its statements: the outcome, the blocks left allocated
  and the events of the run. \<open>pB\<close> is the private copy, \<open>pI\<close> and \<open>pR\<close> the auxiliary
  arrays, \<open>pW\<close> the workspace.
\<close>

lemma svd_l_Rdd_paths:
  assumes e0: "shape = (ur = ar \<and> uc = ar \<and> sn = MIN_of ar ac \<and> vr = ac \<and> vc = ac)"
    and e1: "pB = brk \<sigma>"
    and e2: "pI = Suc (brk \<sigma>)"
    and e3: "pW = Suc (Suc (brk \<sigma>))"
    and e4: "nB = bytes (ar * ac) sizeof_double"
    and e5: "nI = bytes (8 * MIN_of ar ac) sizeof_int"
  shows "case svd_l_Rdd E ar ac ap ur uc up sn sp vr vc vp \<sigma> of (out, \<sigma>') \<Rightarrow>
     (\<lambda>evs.
     (\<not> shape \<and> out = Returned BAD_SIZE \<and> \<sigma>' = \<sigma> \<and> evs = [])
   \<or> (shape \<and> \<not> in_int (ar * ac) \<and> out = Undefined \<and>
        evs = [])
   \<or> (shape \<and> in_int (ar * ac) \<and> out = Returned MEM \<and>
        live \<sigma>' = live \<sigma> \<and>
        evs = [Malloc nB None])
   \<or> (shape \<and> in_int (ar * ac) \<and> out = Undefined \<and>
        evs = [Malloc nB (Some pB)])
   \<or> (shape \<and> in_int (ar * ac) \<and> \<not> in_int (8 * MIN_of ar ac) \<and>
        out = Undefined \<and>
        evs = [Malloc nB (Some pB), Memcpy pB ap nB])
   \<or> (shape \<and> in_int (ar * ac) \<and> in_int (8 * MIN_of ar ac) \<and>
        out = Returned MEM \<and> live \<sigma>' = pB # live \<sigma> \<and>
        evs = [Malloc nB (Some pB), Memcpy pB ap nB, Malloc nI None])
   \<or> (\<exists>a1 r1. shape \<and> in_int (ar * ac) \<and>
        in_int (8 * MIN_of ar ac) \<and> arg_a a1 = (pB, 0) \<and>
        arg_work a1 = Local_ans \<and> arg_lwork a1 = - 1 \<and> out = Undefined \<and>
        evs = [Malloc nB (Some pB), Memcpy pB ap nB, Malloc nI (Some pI), Kernel a1 r1])
   \<or> (\<exists>a1 r1 x. shape \<and> in_int (ar * ac) \<and>
        in_int (8 * MIN_of ar ac) \<and> arg_a a1 = (pB, 0) \<and>
        arg_work a1 = Local_ans \<and> arg_lwork a1 = - 1 \<and>
        out_work1 r1 = Finite x \<and> in_int (2 * \<lceil>x\<rceil>) \<and>
        out = Returned MEM \<and> live \<sigma>' = pI # pB # live \<sigma> \<and>
        evs = [Malloc nB (Some pB), Memcpy pB ap nB, Malloc nI (Some pI), Kernel a1 r1,
          Malloc (work_bytes Rdd (2 * \<lceil>x\<rceil>)) None])
   \<or> (\<exists>a1 r1 x a2 r2. shape \<and> in_int (ar * ac) \<and>
        in_int (8 * MIN_of ar ac) \<and> arg_a a1 = (pB, 0) \<and>
        arg_work a1 = Local_ans \<and> arg_lwork a1 = - 1 \<and>
        out_work1 r1 = Finite x \<and> in_int (2 * \<lceil>x\<rceil>) \<and>
        arg_a a2 = (pB, 0) \<and> arg_work a2 = Block pW \<and>
        arg_lwork a2 = 2 * \<lceil>x\<rceil> \<and> out_info r2 \<noteq> 0 \<and>
        out = Returned (out_info r2) \<and> live \<sigma>' = pW # pI # pB # live \<sigma> \<and>
        evs = [Malloc nB (Some pB), Memcpy pB ap nB, Malloc nI (Some pI), Kernel a1 r1,
          Malloc (work_bytes Rdd (2 * \<lceil>x\<rceil>)) (Some pW), Kernel a2 r2])
   \<or> (\<exists>a1 r1 x a2 r2. shape \<and> in_int (ar * ac) \<and>
        in_int (8 * MIN_of ar ac) \<and> arg_a a1 = (pB, 0) \<and>
        arg_work a1 = Local_ans \<and> arg_lwork a1 = - 1 \<and>
        out_work1 r1 = Finite x \<and> in_int (2 * \<lceil>x\<rceil>) \<and>
        arg_a a2 = (pB, 0) \<and> arg_work a2 = Block pW \<and>
        arg_lwork a2 = 2 * \<lceil>x\<rceil> \<and> out_info r2 = 0 \<and>
        out = Returned 0 \<and> live \<sigma>' = live \<sigma> \<and>
        evs = [Malloc nB (Some pB), Memcpy pB ap nB, Malloc nI (Some pI), Kernel a1 r1,
          Malloc (work_bytes Rdd (2 * \<lceil>x\<rceil>)) (Some pW), Kernel a2 r2, Free pI,
          Free pW, Free pB]))
     (events_during \<sigma> \<sigma>')"
  unfolding e0 e1 e2 e3 e4 e5 svd_l_Rdd_def Let_def dgesdd_def events_during_def
  by (simp add: int_mul_def malloc_def memcpy_if call_kernel_def free_def work_bytes_def Let_def
      lwk_Rdd split: cdouble.split del: double_of_int.simps)

lemma svd_l_R_paths:
  assumes e0: "shape = (ur = ar \<and> uc = ar \<and> sn = MIN_of ar ac \<and> vr = ac \<and> vc = ac)"
    and e1: "pB = brk \<sigma>"
    and e2: "pW = Suc (brk \<sigma>)"
    and e3: "nB = bytes (ar * ac) sizeof_double"
  shows "case svd_l_R E ar ac ap ur uc up sn sp vr vc vp \<sigma> of (out, \<sigma>') \<Rightarrow>
     (\<lambda>evs.
     (\<not> shape \<and> out = Returned BAD_SIZE \<and> \<sigma>' = \<sigma> \<and> evs = [])
   \<or> (shape \<and> \<not> in_int (ar * ac) \<and> out = Undefined \<and>
        evs = [])
   \<or> (shape \<and> in_int (ar * ac) \<and> out = Returned MEM \<and>
        live \<sigma>' = live \<sigma> \<and>
        evs = [Malloc nB None])
   \<or> (shape \<and> in_int (ar * ac) \<and> out = Undefined \<and>
        evs = [Malloc nB (Some pB)])
   \<or> (\<exists>a1 r1. shape \<and> in_int (ar * ac) \<and> arg_a a1 = (pB, 0) \<and>
        arg_work a1 = Local_ans \<and> arg_lwork a1 = - 1 \<and> out = Undefined \<and>
        evs = [Malloc nB (Some pB), Memcpy pB ap nB, Kernel a1 r1])
   \<or> (\<exists>a1 r1 x. shape \<and> in_int (ar * ac) \<and> arg_a a1 = (pB, 0) \<and>
        arg_work a1 = Local_ans \<and> arg_lwork a1 = - 1 \<and>
        out_work1 r1 = Finite x \<and> in_int (\<lceil>x\<rceil>) \<and>
        out = Returned MEM \<and> live \<sigma>' = pB # live \<sigma> \<and>
        evs = [Malloc nB (Some pB), Memcpy pB ap nB, Kernel a1 r1,
          Malloc (work_bytes R \<lceil>x\<rceil>) None])
   \<or> (\<exists>a1 r1 x a2 r2. shape \<and> in_int (ar * ac) \<and>
        arg_a a1 = (pB, 0) \<and> arg_work a1 = Local_ans \<and> arg_lwork a1 = - 1 \<and>
        out_work1 r1 = Finite x \<and> in_int (\<lceil>x\<rceil>) \<and>
        arg_a a2 = (pB, 0) \<and> arg_work a2 = Block pW \<and>
        arg_lwork a2 = \<lceil>x\<rceil> \<and> out_info r2 \<noteq> 0 \<and>
        out = Returned (out_info r2) \<and> live \<sigma>' = pW # pB # live \<sigma> \<and>
        evs = [Malloc nB (Some pB), Memcpy pB ap nB, Kernel a1 r1,
          Malloc (work_bytes R \<lceil>x\<rceil>) (Some pW), Kernel a2 r2])
   \<or> (\<exists>a1 r1 x a2 r2. shape \<and> in_int (ar * ac) \<and>
        arg_a a1 = (pB, 0) \<and> arg_work a1 = Local_ans \<and> arg_lwork a1 = - 1 \<and>
        out_work1 r1 = Finite x \<and> in_int (\<lceil>x\<rceil>) \<and>
        arg_a a2 = (pB, 0) \<and> arg_work a2 = Block pW \<and>
        arg_lwork a2 = \<lceil>x\<rceil> \<and> out_info r2 = 0 \<and> out = Returned 0 \<and>
        live \<sigma>' = live \<sigma> \<and>
        evs = [Malloc nB (Some pB), Memcpy pB ap nB, Kernel a1 r1,
          Malloc (work_bytes R \<lceil>x\<rceil>) (Some pW), Kernel a2 r2, Free pW, Free pB]))
     (events_during \<sigma> \<sigma>')"
  unfolding e0 e1 e2 e3 svd_l_R_def Let_def dgesvd_def events_during_def
  by (simp add: int_mul_def malloc_def memcpy_if call_kernel_def free_def work_bytes_def Let_def
      lwork_R split: cdouble.split del: double_of_int.simps)

lemma svd_l_C_paths:
  assumes e0: "shape = (ur = ar \<and> uc = ar \<and> sn = MIN_of ar ac \<and> vr = ac \<and> vc = ac)"
    and e1: "pB = brk \<sigma>"
    and e2: "pR = Suc (brk \<sigma>)"
    and e3: "pW = Suc (Suc (brk \<sigma>))"
    and e4: "nB = bytes (2 * ar * ac) sizeof_double"
    and e5: "nC = bytes (ar * ac * 2) sizeof_double"
    and e6: "nR = bytes (5 * MIN_of ar ac) sizeof_double"
  shows "case svd_l_C E ar ac ap ur uc up sn sp vr vc vp \<sigma> of (out, \<sigma>') \<Rightarrow>
     (\<lambda>evs.
     (\<not> shape \<and> out = Returned BAD_SIZE \<and> \<sigma>' = \<sigma> \<and> evs = [])
   \<or> (shape \<and> \<not> in_int (2 * ar) \<and> out = Undefined \<and>
        evs = [])
   \<or> (shape \<and> in_int (2 * ar) \<and> \<not> in_int (2 * ar * ac) \<and>
        out = Undefined \<and>
        evs = [])
   \<or> (shape \<and> in_int (2 * ar) \<and> in_int (2 * ar * ac) \<and>
        out = Returned MEM \<and> live \<sigma>' = live \<sigma> \<and>
        evs = [Malloc nB None])
   \<or> (shape \<and> in_int (2 * ar) \<and> in_int (2 * ar * ac) \<and>
        \<not> in_int (ar * ac) \<and> out = Undefined \<and>
        evs = [Malloc nB (Some pB)])
   \<or> (shape \<and> in_int (2 * ar) \<and> in_int (2 * ar * ac) \<and>
        in_int (ar * ac) \<and> \<not> in_int (ar * ac * 2) \<and> out = Undefined \<and>
        evs = [Malloc nB (Some pB)])
   \<or> (shape \<and> in_int (2 * ar) \<and> in_int (2 * ar * ac) \<and>
        in_int (ar * ac) \<and> in_int (ar * ac * 2) \<and> out = Undefined \<and>
        evs = [Malloc nB (Some pB)])
   \<or> (shape \<and> in_int (2 * ar) \<and> in_int (2 * ar * ac) \<and>
        in_int (ar * ac) \<and> in_int (ar * ac * 2) \<and>
        \<not> in_int (5 * MIN_of ar ac) \<and> out = Undefined \<and>
        evs = [Malloc nB (Some pB), Memcpy pB ap nC])
   \<or> (shape \<and> in_int (2 * ar) \<and> in_int (2 * ar * ac) \<and>
        in_int (ar * ac) \<and> in_int (ar * ac * 2) \<and> in_int (5 * MIN_of ar ac) \<and>
        out = Returned MEM \<and> live \<sigma>' = pB # live \<sigma> \<and>
        evs = [Malloc nB (Some pB), Memcpy pB ap nC, Malloc nR None])
   \<or> (\<exists>a1 r1. shape \<and> in_int (2 * ar) \<and> in_int (2 * ar * ac) \<and>
        in_int (ar * ac) \<and> in_int (ar * ac * 2) \<and> in_int (5 * MIN_of ar ac) \<and>
        arg_a a1 = (pB, 0) \<and> arg_work a1 = Local_ans \<and> arg_lwork a1 = - 1 \<and>
        out = Undefined \<and>
        evs = [Malloc nB (Some pB), Memcpy pB ap nC, Malloc nR (Some pR), Kernel a1 r1])
   \<or> (\<exists>a1 r1 x. shape \<and> in_int (2 * ar) \<and> in_int (2 * ar * ac) \<and>
        in_int (ar * ac) \<and> in_int (ar * ac * 2) \<and> in_int (5 * MIN_of ar ac) \<and>
        arg_a a1 = (pB, 0) \<and> arg_work a1 = Local_ans \<and> arg_lwork a1 = - 1 \<and>
        out_work1 r1 = Finite x \<and> in_int (\<lceil>x\<rceil>) \<and>
        \<not> in_int (\<lceil>x\<rceil> * 2) \<and> out = Undefined \<and>
        evs = [Malloc nB (Some pB), Memcpy pB ap nC, Malloc nR (Some pR), Kernel a1 r1])
   \<or> (\<exists>a1 r1 x. shape \<and> in_int (2 * ar) \<and> in_int (2 * ar * ac) \<and>
        in_int (ar * ac) \<and> in_int (ar * ac * 2) \<and> in_int (5 * MIN_of ar ac) \<and>
        arg_a a1 = (pB, 0) \<and> arg_work a1 = Local_ans \<and> arg_lwork a1 = - 1 \<and>
        out_work1 r1 = Finite x \<and> in_int (\<lceil>x\<rceil>) \<and>
        in_int (\<lceil>x\<rceil> * 2) \<and> out = Returned MEM \<and>
        live \<sigma>' = pR # pB # live \<sigma> \<and>
        evs = [Malloc nB (Some pB), Memcpy pB ap nC, Malloc nR (Some pR), Kernel a1 r1,
          Malloc (work_bytes C \<lceil>x\<rceil>) None])
   \<or> (\<exists>a1 r1 x a2 r2. shape \<and> in_int (2 * ar) \<and>
        in_int (2 * ar * ac) \<and> in_int (ar * ac) \<and> in_int (ar * ac * 2) \<and>
        in_int (5 * MIN_of ar ac) \<and> arg_a a1 = (pB, 0) \<and>
        arg_work a1 = Local_ans \<and> arg_lwork a1 = - 1 \<and>
        out_work1 r1 = Finite x \<and> in_int (\<lceil>x\<rceil>) \<and>
        in_int (\<lceil>x\<rceil> * 2) \<and> arg_a a2 = (pB, 0) \<and>
        arg_work a2 = Block pW \<and> arg_lwork a2 = \<lceil>x\<rceil> \<and>
        out_info r2 \<noteq> 0 \<and> out = Returned (out_info r2) \<and>
        live \<sigma>' = pW # pR # pB # live \<sigma> \<and>
        evs = [Malloc nB (Some pB), Memcpy pB ap nC, Malloc nR (Some pR), Kernel a1 r1,
          Malloc (work_bytes C \<lceil>x\<rceil>) (Some pW), Kernel a2 r2])
   \<or> (\<exists>a1 r1 x a2 r2. shape \<and> in_int (2 * ar) \<and>
        in_int (2 * ar * ac) \<and> in_int (ar * ac) \<and> in_int (ar * ac * 2) \<and>
        in_int (5 * MIN_of ar ac) \<and> arg_a a1 = (pB, 0) \<and>
        arg_work a1 = Local_ans \<and> arg_lwork a1 = - 1 \<and>
        out_work1 r1 = Finite x \<and> in_int (\<lceil>x\<rceil>) \<and>
        in_int (\<lceil>x\<rceil> * 2) \<and> arg_a a2 = (pB, 0) \<and>
        arg_work a2 = Block pW \<and> arg_lwork a2 = \<lceil>x\<rceil> \<and>
        out_info r2 = 0 \<and> out = Returned 0 \<and> live \<sigma>' = live \<sigma> \<and>
        evs = [Malloc nB (Some pB), Memcpy pB ap nC, Malloc nR (Some pR), Kernel a1 r1,
          Malloc (work_bytes C \<lceil>x\<rceil>) (Some pW), Kernel a2 r2, Free pW, Free pR,
          Free pB]))
     (events_during \<sigma> \<sigma>')"
  unfolding e0 e1 e2 e3 e4 e5 e6 svd_l_C_def Let_def zgesvd_def events_during_def
  by (simp add: int_mul_def malloc_def memcpy_if call_kernel_def free_def work_bytes_def Let_def
      lwork_R split: cdouble.split del: double_of_int.simps)


section \<open>What the drivers guarantee\<close>

lemmas obs = statuses_def answers_def lworks_def work_ptrs_def matrix_ptrs_def alloc_sizes_def
  alloc_results_def

lemmas Rdd_run = split_run [OF svd_l_Rdd_paths [OF refl refl refl refl refl refl]]

lemmas R_run = split_run [OF svd_l_R_paths [OF refl refl refl refl]]

lemmas C_run = split_run [OF svd_l_C_paths [OF refl refl refl refl refl refl refl]]

lemma invoke_run:
  assumes "invoke v E ar ac ap ur uc up sn sp vr vc vp \<sigma> = (out, \<sigma>')"
  obtains (Rdd) "v = Rdd" and "svd_l_Rdd E ar ac ap ur uc up sn sp vr vc vp \<sigma> = (out, \<sigma>')"
  | (R) "v = R" and "svd_l_R E ar ac ap ur uc up sn sp vr vc vp \<sigma> = (out, \<sigma>')"
  | (C) "v = C" and "svd_l_C E ar ac ap ur uc up sn sp vr vc vp \<sigma> = (out, \<sigma>')"
  using assms by (cases v) (simp_all add: invoke_def)

text \<open>The sample runs are evaluated with these equations.\<close>

lemmas ex_simps = ex_run_def ex_events_def ex_mismatch_def ex_aliased_def ex_overlapped_def
  ex_adjacent_def invoke_def svd_l_Rdd_def svd_l_R_def svd_l_C_def Let_def malloc_def free_def memcpy_def
  dgesdd_def dgesvd_def zgesvd_def call_kernel_def store_def overwrite_def load_def
  cell_width_def int_mul_def in_int_def INT_MIN_def INT_MAX_def MIN_of_def bytes_def
  size_mul_def size_of_int_def sizeof_double_def sizeof_int_def SIZE_WIDTH_def ex_env_def
  ex_state_def ex_kernel_def ex_mem_def ex_malloc_ok_def events_during_def BAD_SIZE_def MEM_def

subsection \<open>Buffers on the exit paths\<close>

text \<open>
  An invocation that returns 0 has freed every block it allocated: the blocks allocated
  after the call are those allocated before it. This is the path the other exits are
  compared with.
\<close>

theorem success_frees_everything:
  assumes run: "run = invoke v E ar ac ap ur uc up sn sp vr vc vp \<sigma>"
    and ok: "fst run = Returned 0"
  shows "live (snd run) = live \<sigma>"
proof -
  obtain out \<sigma>' where r: "invoke v E ar ac ap ur uc up sn sp vr vc vp \<sigma> = (out, \<sigma>')"
    by (cases "invoke v E ar ac ap ur uc up sn sp vr vc vp \<sigma>")
  from ok have o: "out = Returned 0"
    by (simp add: run r)
  have "live \<sigma>' = live \<sigma>"
    using r
  proof (cases rule: invoke_run)
    case Rdd
    from Rdd_run [OF Rdd(2)] o show ?thesis
      by (elim disjE exE conjE) (simp_all add: BAD_SIZE_def MEM_def)
  next
    case R
    from R_run [OF R(2)] o show ?thesis
      by (elim disjE exE conjE) (simp_all add: BAD_SIZE_def MEM_def)
  next
    case C
    from C_run [OF C(2)] o show ?thesis
      by (elim disjE exE conjE) (simp_all add: BAD_SIZE_def MEM_def)
  qed
  then show ?thesis
    by (simp add: run r)
qed

theorem success_frees_everything_witness:
  "fst (ex_run Rdd 3 0 0) = Returned 0 \<and> live (snd (ex_run Rdd 3 0 0)) = live ex_state \<and>
   fst (ex_run C 3 0 0) = Returned 0 \<and> live (snd (ex_run C 3 0 0)) = live ex_state \<and>
   alloc_results (ex_events C 3 0 0) = [Some 4, Some 5, Some 6]"
proof -
  have h: "fst (ex_run Rdd 3 0 0) = Returned 0" "fst (ex_run C 3 0 0) = Returned 0"
    "alloc_results (ex_events C 3 0 0) = [Some 4, Some 5, Some 6]"
    by (simp_all add: ex_simps obs)
  from success_frees_everything [OF ex_run_def h(1)] success_frees_everything [OF ex_run_def h(2)]
  show ?thesis
    using h by simp
qed

text \<open>
  A run whose execution call reports a status other than 0 returns it at once: the
  copy, the workspace and the auxiliary array stay allocated.
\<close>

lemma kernel_failure_frees_nothing:
  assumes "invoke v E ar ac ap ur uc up sn sp vr vc vp \<sigma> = (out, \<sigma>')"
    and "statuses (events_during \<sigma> \<sigma>') = [s1, s2]" and "s2 \<noteq> 0"
  shows "live \<sigma>' =
    (case v of
       Rdd \<Rightarrow> Suc (Suc (brk \<sigma>)) # Suc (brk \<sigma>) # brk \<sigma> # live \<sigma>
     | R \<Rightarrow> Suc (brk \<sigma>) # brk \<sigma> # live \<sigma>
     | C \<Rightarrow> Suc (Suc (brk \<sigma>)) # Suc (brk \<sigma>) # brk \<sigma> # live \<sigma>)"
  using assms(1)
proof (cases rule: invoke_run)
  case Rdd
  from Rdd_run [OF Rdd(2)] assms(2,3) show ?thesis
    by (elim disjE exE conjE) (simp_all add: obs Rdd(1))
next
  case R
  from R_run [OF R(2)] assms(2,3) show ?thesis
    by (elim disjE exE conjE) (simp_all add: obs R(1))
next
  case C
  from C_run [OF C(2)] assms(2,3) show ?thesis
    by (elim disjE exE conjE) (simp_all add: obs C(1))
qed

text \<open>
  A run in which an allocation fails after the first one has succeeded returns \<open>MEM\<close>
  with the copy still allocated.
\<close>

lemma allocation_failure_frees_nothing:
  assumes "invoke v E ar ac ap ur uc up sn sp vr vc vp \<sigma> = (out, \<sigma>')"
    and "alloc_results (events_during \<sigma> \<sigma>') = Some b # rs" and "None \<in> set rs"
  shows "out = Returned MEM \<and> b = brk \<sigma> \<and> b \<in> set (live \<sigma>')"
  using assms(1)
proof (cases rule: invoke_run)
  case Rdd
  from Rdd_run [OF Rdd(2)] assms(2) [symmetric] assms(3) show ?thesis
    by (elim disjE exE conjE) (simp_all add: obs)
next
  case R
  from R_run [OF R(2)] assms(2) [symmetric] assms(3) show ?thesis
    by (elim disjE exE conjE) (simp_all add: obs)
next
  case C
  from C_run [OF C(2)] assms(2) [symmetric] assms(3) show ?thesis
    by (elim disjE exE conjE) (simp_all add: obs)
qed

text \<open>
  C1. The claim: on every exit path, the one where the execution call reports a status
  other than 0 included, the private copy and every scratch array are freed before the
  function returns. The code returns from \<open>CHECK(res,res)\<close> before its calls of \<open>free\<close>:
  in the sample run whose execution call reports 3, the three drivers return 3 with their
  blocks (4, 5 and 6; 4 and 5 for \<open>svd_l_R\<close>) still allocated, where the run that
  succeeds leaves none.
\<close>

theorem kernel_failure_leaks_buffers:
  "fst (ex_run Rdd 3 0 3) = Returned 3 \<and> live (snd (ex_run Rdd 3 0 3)) = [6, 5, 4] \<and>
   fst (ex_run R 3 0 3) = Returned 3 \<and> live (snd (ex_run R 3 0 3)) = [5, 4] \<and>
   fst (ex_run C 3 0 3) = Returned 3 \<and> live (snd (ex_run C 3 0 3)) = [6, 5, 4] \<and>
   live ex_state = [] \<and>
   fst (ex_run Rdd 3 0 0) = Returned 0 \<and> live (snd (ex_run Rdd 3 0 0)) = []"
  by (simp add: ex_simps)

text \<open>
  C2. The claim: when an allocation after the private copy fails, every block allocated
  earlier in the call is released before the out-of-memory code is returned. The code
  returns from \<open>CHECK(!iwk,MEM)\<close>, \<open>CHECK(!work,MEM)\<close> and their like without a call of
  \<open>free\<close>: in the sample runs where the second allocation fails, the three drivers
  return 1002 with the copy (block 4) still allocated; where the third fails,
  \<open>svd_l_Rdd\<close> and \<open>svd_l_C\<close> also keep the auxiliary array (block 5).
\<close>

theorem allocation_failure_leaks_copy:
  "fst (ex_run Rdd 1 0 0) = Returned MEM \<and> live (snd (ex_run Rdd 1 0 0)) = [4] \<and>
   fst (ex_run R 1 0 0) = Returned MEM \<and> live (snd (ex_run R 1 0 0)) = [4] \<and>
   fst (ex_run C 1 0 0) = Returned MEM \<and> live (snd (ex_run C 1 0 0)) = [4] \<and>
   fst (ex_run Rdd 2 0 0) = Returned MEM \<and> live (snd (ex_run Rdd 2 0 0)) = [5, 4] \<and>
   fst (ex_run C 2 0 0) = Returned MEM \<and> live (snd (ex_run C 2 0 0)) = [5, 4] \<and>
   live ex_state = [] \<and> MEM = 1002"
  by (simp add: ex_simps)

subsection \<open>The shape check\<close>

text \<open>
  C3. With \<open>m = ar\<close>, \<open>n = ac\<close> and \<open>q = min m n\<close>: when the output descriptors do not
  satisfy \<open>ur = m\<close>, \<open>uc = m\<close>, \<open>sn = q\<close>, \<open>vr = n\<close>, \<open>vc = n\<close>, each driver returns
  \<open>BAD_SIZE = 1000\<close>, leaves the state as it was, and has made no allocation and no
  kernel call.
\<close>

theorem size_mismatch_returns_BAD_SIZE:
  assumes "\<not> (ur = ar \<and> uc = ar \<and> sn = min ar ac \<and> vr = ac \<and> vc = ac)"
    and "run = invoke v E ar ac ap ur uc up sn sp vr vc vp \<sigma>"
  shows "fst run = Returned 1000 \<and> snd run = \<sigma> \<and>
         mallocs (events_during \<sigma> (snd run)) = [] \<and>
         kernel_calls (events_during \<sigma> (snd run)) = []"
proof -
  have "run = (Returned BAD_SIZE, \<sigma>)"
    using assms
    by (cases v) (simp_all add: invoke_def svd_l_Rdd_def svd_l_R_def svd_l_C_def MIN_of_min)
  then show ?thesis
    by (simp add: BAD_SIZE_def events_during_def)
qed

theorem size_mismatch_returns_BAD_SIZE_witness:
  "\<not> ((2::int) = 1 \<and> (1::int) = 1 \<and> (1::int) = min 1 1 \<and> (1::int) = 1 \<and> (1::int) = 1) \<and>
   fst (ex_mismatch C) = Returned 1000 \<and> snd (ex_mismatch C) = ex_state \<and>
   mallocs (events_during ex_state (snd (ex_mismatch C))) = [] \<and>
   kernel_calls (events_during ex_state (snd (ex_mismatch C))) = []"
proof -
  have h: "\<not> ((2::int) = 1 \<and> (1::int) = 1 \<and> (1::int) = min 1 1 \<and> (1::int) = 1 \<and> (1::int) = 1)"
    by simp
  from size_mismatch_returns_BAD_SIZE [OF h ex_mismatch_def] show ?thesis
    using h by blast
qed

subsection \<open>The return value\<close>

text \<open>
  C5. Whenever an invocation makes its second (execution) kernel call, and that call
  writes the status \<open>s2\<close>, the function returns 0 when \<open>s2 = 0\<close> and \<open>s2\<close> itself
  otherwise. A second call is made only where the shapes passed the check and every
  allocation succeeded.
\<close>

theorem kernel_status_returned:
  assumes run: "run = invoke v E ar ac ap ur uc up sn sp vr vc vp \<sigma>"
    and ev: "ev = events_during \<sigma> (snd run)"
    and st: "statuses ev = [s1, s2]"
  shows "fst run = (if s2 = 0 then Returned 0 else Returned s2) \<and>
         (ur = ar \<and> uc = ar \<and> sn = min ar ac \<and> vr = ac \<and> vc = ac) \<and>
         None \<notin> set (alloc_results ev)"
proof -
  obtain out \<sigma>' where r: "invoke v E ar ac ap ur uc up sn sp vr vc vp \<sigma> = (out, \<sigma>')"
    by (cases "invoke v E ar ac ap ur uc up sn sp vr vc vp \<sigma>")
  have o: "fst run = out" and e: "ev = events_during \<sigma> \<sigma>'"
    by (simp_all add: ev run r)
  from st have st': "statuses (events_during \<sigma> \<sigma>') = [s1, s2]"
    by (simp add: e)
  have main: "out = (if s2 = 0 then Returned 0 else Returned s2) \<and>
         (ur = ar \<and> uc = ar \<and> sn = min ar ac \<and> vr = ac \<and> vc = ac) \<and>
         None \<notin> set (alloc_results (events_during \<sigma> \<sigma>'))"
    using r
  proof (cases rule: invoke_run)
    case Rdd
    from Rdd_run [OF Rdd(2)] st' show ?thesis
      by (elim disjE exE conjE) (simp_all add: obs MIN_of_min)
  next
    case R
    from R_run [OF R(2)] st' show ?thesis
      by (elim disjE exE conjE) (simp_all add: obs MIN_of_min)
  next
    case C
    from C_run [OF C(2)] st' show ?thesis
      by (elim disjE exE conjE) (simp_all add: obs MIN_of_min)
  qed
  show ?thesis
    unfolding o e by (rule main)
qed

theorem kernel_status_returned_witness:
  "statuses (ex_events Rdd 3 0 7) = [0, 7] \<and> fst (ex_run Rdd 3 0 7) = Returned 7 \<and>
   statuses (ex_events C 3 0 0) = [0, 0] \<and> fst (ex_run C 3 0 0) = Returned 0 \<and>
   None \<notin> set (alloc_results (ex_events C 3 0 0))"
proof -
  have h: "statuses (ex_events Rdd 3 0 7) = [0, 7]"
    by (simp add: ex_simps obs)
  have k: "statuses (ex_events C 3 0 0) = [0, 0]"
    by (simp add: ex_simps obs)
  from kernel_status_returned [OF ex_run_def ex_events_def h]
    kernel_status_returned [OF ex_run_def ex_events_def k]
  show ?thesis
    using h k by simp
qed

text \<open>
  C4. The claim: for all kernel status values, the code returned for a kernel-reported
  failure differs from the codes of size-mismatch (1000), out-of-memory (1002) and
  success (0). The status is returned as it is, so a kernel status of 1000 gives the
  return value of a size mismatch: the sample run below passes the shape check, makes
  both kernel calls, and returns what the run with a wrong shape returns.
\<close>

theorem kernel_status_collides_with_BAD_SIZE:
  "statuses (ex_events R 3 0 1000) = [0, 1000] \<and>
   fst (ex_run R 3 0 1000) = Returned BAD_SIZE \<and>
   fst (ex_mismatch R) = Returned BAD_SIZE \<and>
   kernel_calls (events_during ex_state (snd (ex_mismatch R))) = []"
  by (simp add: ex_simps obs)

text \<open>
  C4 as amended. For every status \<open>s2\<close> of the execution call other than 0, 1000 and
  1002, the return value is \<open>s2\<close>, and so differs from the codes of success,
  size mismatch and out of memory, which differ from one another.
\<close>

theorem kernel_failure_code_distinct:
  assumes run: "run = invoke v E ar ac ap ur uc up sn sp vr vc vp \<sigma>"
    and ev: "ev = events_during \<sigma> (snd run)"
    and st: "statuses ev = [s1, s2]"
    and s2: "s2 \<noteq> 0" "s2 \<noteq> BAD_SIZE" "s2 \<noteq> MEM"
  shows "fst run = Returned s2 \<and> fst run \<noteq> Returned 0 \<and> fst run \<noteq> Returned BAD_SIZE \<and>
         fst run \<noteq> Returned MEM \<and> BAD_SIZE = 1000 \<and> MEM = 1002"
proof -
  obtain out \<sigma>' where r: "invoke v E ar ac ap ur uc up sn sp vr vc vp \<sigma> = (out, \<sigma>')"
    by (cases "invoke v E ar ac ap ur uc up sn sp vr vc vp \<sigma>")
  from st have st': "statuses (events_during \<sigma> \<sigma>') = [s1, s2]"
    by (simp add: ev run r)
  have "out = Returned s2"
    using r
  proof (cases rule: invoke_run)
    case Rdd
    from Rdd_run [OF Rdd(2)] st' s2(1) show ?thesis
      by (elim disjE exE conjE) (simp_all add: obs)
  next
    case R
    from R_run [OF R(2)] st' s2(1) show ?thesis
      by (elim disjE exE conjE) (simp_all add: obs)
  next
    case C
    from C_run [OF C(2)] st' s2(1) show ?thesis
      by (elim disjE exE conjE) (simp_all add: obs)
  qed
  with s2 show ?thesis
    by (simp add: run r BAD_SIZE_def MEM_def)
qed

theorem kernel_failure_code_distinct_witness:
  "statuses (ex_events C 3 0 (- 4)) = [0, - 4] \<and> (- 4 :: int) \<noteq> 0 \<and> - 4 \<noteq> BAD_SIZE \<and>
   - 4 \<noteq> MEM \<and> fst (ex_run C 3 0 (- 4)) = Returned (- 4)"
proof -
  have h: "statuses (ex_events C 3 0 (- 4)) = [0, - 4]"
    by (simp add: ex_simps obs)
  have n: "(- 4 :: int) \<noteq> 0" "- 4 \<noteq> BAD_SIZE" "- 4 \<noteq> MEM"
    by (simp_all add: BAD_SIZE_def MEM_def)
  from kernel_failure_code_distinct [OF ex_run_def ex_events_def h n] show ?thesis
    using h n by simp
qed

subsection \<open>The two kernel calls\<close>

text \<open>
  C6. Whenever an invocation makes its second kernel call, the kernel's recommendation
  \<open>ans\<close> (the value the first call left in the work slot) is a finite \<open>x\<close>, and the
  workspace length passed to the second call is \<open>2 * ceil x\<close> in \<open>svd_l_Rdd\<close> and
  \<open>ceil x\<close> in \<open>svd_l_R\<close> and \<open>svd_l_C\<close>.
\<close>

theorem workspace_length_from_recommendation:
  assumes run: "run = invoke v E ar ac ap ur uc up sn sp vr vc vp \<sigma>"
    and ev: "ev = events_during \<sigma> (snd run)"
    and an: "answers ev = [ans, ans']"
    and lw: "lworks ev = [l1, l2]"
  shows "\<exists>x. ans = Finite x \<and> l2 = (case v of Rdd \<Rightarrow> 2 * \<lceil>x\<rceil> | R \<Rightarrow> \<lceil>x\<rceil> | C \<Rightarrow> \<lceil>x\<rceil>)"
proof -
  obtain out \<sigma>' where r: "invoke v E ar ac ap ur uc up sn sp vr vc vp \<sigma> = (out, \<sigma>')"
    by (cases "invoke v E ar ac ap ur uc up sn sp vr vc vp \<sigma>")
  from an lw have h: "answers (events_during \<sigma> \<sigma>') = [ans, ans']"
    "lworks (events_during \<sigma> \<sigma>') = [l1, l2]"
    by (simp_all add: ev run r)
  show ?thesis
    using r
  proof (cases rule: invoke_run)
    case Rdd
    from Rdd_run [OF Rdd(2)] h [symmetric] show ?thesis
      by (elim disjE exE conjE) (simp_all add: obs Rdd(1))
  next
    case R
    from R_run [OF R(2)] h [symmetric] show ?thesis
      by (elim disjE exE conjE) (simp_all add: obs R(1))
  next
    case C
    from C_run [OF C(2)] h [symmetric] show ?thesis
      by (elim disjE exE conjE) (simp_all add: obs C(1))
  qed
qed

theorem workspace_length_from_recommendation_witness:
  "answers (ex_events Rdd 3 0 0) = [Finite (5 / 2), Finite 3] \<and>
   lworks (ex_events Rdd 3 0 0) = [- 1, 6] \<and>
   answers (ex_events R 3 0 0) = [Finite (5 / 2), Finite 3] \<and>
   lworks (ex_events R 3 0 0) = [- 1, 3] \<and>
   (\<exists>x. Finite (5 / 2) = Finite x \<and> (6 :: int) = 2 * \<lceil>x\<rceil>) \<and>
   (\<exists>x. Finite (5 / 2) = Finite x \<and> (3 :: int) = \<lceil>x\<rceil>)"
proof -
  have a: "answers (ex_events Rdd 3 0 0) = [Finite (5 / 2), Finite 3]"
    and l: "lworks (ex_events Rdd 3 0 0) = [- 1, 6]"
    and a': "answers (ex_events R 3 0 0) = [Finite (5 / 2), Finite 3]"
    and l': "lworks (ex_events R 3 0 0) = [- 1, 3]"
    by (simp_all add: ex_simps obs)
  from workspace_length_from_recommendation [OF ex_run_def ex_events_def a l]
    workspace_length_from_recommendation [OF ex_run_def ex_events_def a' l']
  show ?thesis
    using a l a' l' by simp
qed

text \<open>
  C7. An invocation that returns 0 has called the kernel exactly twice: first with the
  workspace length \<open>- 1\<close> and the one-cell slot \<open>ans\<close> as work array, then with a block
  \<open>w\<close> as work array and a length \<open>L\<close>, where \<open>w\<close> is the block the driver was given
  when it asked \<open>malloc\<close> for a workspace of length \<open>L\<close>.
\<close>

theorem success_calls_kernel_twice:
  assumes run: "run = invoke v E ar ac ap ur uc up sn sp vr vc vp \<sigma>"
    and ev: "ev = events_during \<sigma> (snd run)"
    and ok: "fst run = Returned 0"
  shows "\<exists>L w. lworks ev = [- 1, L] \<and> work_ptrs ev = [Local_ans, Block w] \<and>
           (work_bytes v L, Some w) \<in> set (mallocs ev)"
proof -
  obtain out \<sigma>' where r: "invoke v E ar ac ap ur uc up sn sp vr vc vp \<sigma> = (out, \<sigma>')"
    by (cases "invoke v E ar ac ap ur uc up sn sp vr vc vp \<sigma>")
  from ok have o: "out = Returned 0"
    by (simp add: run r)
  have e: "ev = events_during \<sigma> \<sigma>'"
    by (simp add: ev run r)
  show ?thesis
    using r
  proof (cases rule: invoke_run)
    case Rdd
    from Rdd_run [OF Rdd(2)] o show ?thesis
      by (elim disjE exE conjE) (simp_all add: obs e Rdd(1) BAD_SIZE_def MEM_def)
  next
    case R
    from R_run [OF R(2)] o show ?thesis
      by (elim disjE exE conjE) (simp_all add: obs e R(1) BAD_SIZE_def MEM_def)
  next
    case C
    from C_run [OF C(2)] o show ?thesis
      by (elim disjE exE conjE) (simp_all add: obs e C(1) BAD_SIZE_def MEM_def)
  qed
qed

theorem success_calls_kernel_twice_witness:
  "fst (ex_run C 3 0 0) = Returned 0 \<and>
   lworks (ex_events C 3 0 0) = [- 1, 3] \<and> work_ptrs (ex_events C 3 0 0) = [Local_ans, Block 6] \<and>
   mallocs (ex_events C 3 0 0) = [(16, Some 4), (40, Some 5), (48, Some 6)] \<and>
   (\<exists>L w. lworks (ex_events C 3 0 0) = [- 1, L] \<and>
      work_ptrs (ex_events C 3 0 0) = [Local_ans, Block w] \<and>
      (work_bytes C L, Some w) \<in> set (mallocs (ex_events C 3 0 0)))"
proof -
  have h: "fst (ex_run C 3 0 0) = Returned 0"
    by (simp add: ex_simps)
  have e: "lworks (ex_events C 3 0 0) = [- 1, 3]"
    "work_ptrs (ex_events C 3 0 0) = [Local_ans, Block 6]"
    "mallocs (ex_events C 3 0 0) = [(16, Some 4), (40, Some 5), (48, Some 6)]"
    by (simp_all add: ex_simps obs)
  from success_calls_kernel_twice [OF ex_run_def ex_events_def h] show ?thesis
    using h e by simp
qed



subsection \<open>The blocks a driver asks for\<close>

text \<open>
  C8. With \<open>q = min ar ac\<close>, the requests an invocation makes of \<open>malloc\<close> are, in order
  and as far as the run gets: in \<open>svd_l_Rdd\<close> the copy, \<open>8*q\<close> elements of
  \<open>sizeof(int)\<close> bytes, and the workspace; in \<open>svd_l_C\<close> the copy, \<open>5*q\<close> elements of
  \<open>sizeof(double)\<close> bytes, and a workspace of \<open>L*2\<close> doubles for the length \<open>L\<close>
  handed to the execution call; in \<open>svd_l_R\<close> the copy and the workspace, and no
  auxiliary array. A count \<open>k\<close> that is not negative and fits an \<open>int\<close> makes
  \<open>bytes k sz\<close> exactly \<open>k\<close> elements of \<open>sz\<close> bytes.
\<close>

theorem auxiliary_buffer_sizes:
  assumes run: "run = invoke v E ar ac ap ur uc up sn sp vr vc vp \<sigma>"
    and ev: "ev = events_during \<sigma> (snd run)"
    and q: "q = min ar ac"
  shows "(\<exists>W. prefix (alloc_sizes ev)
            (case v of
               Rdd \<Rightarrow> [bytes (ar * ac) sizeof_double, bytes (8 * q) sizeof_int, W]
             | R \<Rightarrow> [bytes (ar * ac) sizeof_double, W]
             | C \<Rightarrow> [bytes (2 * ar * ac) sizeof_double, bytes (5 * q) sizeof_double, W]) \<and>
            (\<forall>L. lworks ev = [- 1, L] \<longrightarrow>
               W = (case v of
                      Rdd \<Rightarrow> bytes L sizeof_double
                    | R \<Rightarrow> bytes L sizeof_double
                    | C \<Rightarrow> bytes (L * 2) sizeof_double))) \<and>
         (\<forall>k sz. 0 \<le> k \<and> in_int k \<and> sz \<le> 8 \<longrightarrow> bytes k sz = nat k * sz) \<and>
         sizeof_int = 4 \<and> sizeof_double = 8"
proof -
  obtain out \<sigma>' where r: "invoke v E ar ac ap ur uc up sn sp vr vc vp \<sigma> = (out, \<sigma>')"
    by (cases "invoke v E ar ac ap ur uc up sn sp vr vc vp \<sigma>")
  have e: "ev = events_during \<sigma> \<sigma>'"
    by (simp add: ev run r)
  have "\<exists>W. prefix (alloc_sizes ev)
            (case v of
               Rdd \<Rightarrow> [bytes (ar * ac) sizeof_double, bytes (8 * q) sizeof_int, W]
             | R \<Rightarrow> [bytes (ar * ac) sizeof_double, W]
             | C \<Rightarrow> [bytes (2 * ar * ac) sizeof_double, bytes (5 * q) sizeof_double, W]) \<and>
            (\<forall>L. lworks ev = [- 1, L] \<longrightarrow>
               W = (case v of
                      Rdd \<Rightarrow> bytes L sizeof_double
                    | R \<Rightarrow> bytes L sizeof_double
                    | C \<Rightarrow> bytes (L * 2) sizeof_double))"
    using r
  proof (cases rule: invoke_run)
    case Rdd
    from Rdd_run [OF Rdd(2)] show ?thesis
      by (elim disjE exE conjE) (simp_all add: obs e q Rdd(1) MIN_of_min work_bytes_def)
  next
    case R
    from R_run [OF R(2)] show ?thesis
      by (elim disjE exE conjE) (simp_all add: obs e q R(1) MIN_of_min work_bytes_def)
  next
    case C
    from C_run [OF C(2)] show ?thesis
      by (elim disjE exE conjE) (simp_all add: obs e q C(1) MIN_of_min work_bytes_def)
  qed
  then show ?thesis
    by (simp add: bytes_exact sizeof_int_def sizeof_double_def)
qed

theorem auxiliary_buffer_sizes_witness:
  "alloc_sizes (ex_events Rdd 3 0 0) = [8, 32, 48] \<and> lworks (ex_events Rdd 3 0 0) = [- 1, 6] \<and>
   alloc_sizes (ex_events R 3 0 0) = [8, 24] \<and> lworks (ex_events R 3 0 0) = [- 1, 3] \<and>
   alloc_sizes (ex_events C 3 0 0) = [16, 40, 48] \<and> lworks (ex_events C 3 0 0) = [- 1, 3] \<and>
   alloc_sizes (ex_events C 2 0 0) = [16, 40, 48] \<and> lworks (ex_events C 2 0 0) = [- 1] \<and>
   bytes (8 * min 1 1) sizeof_int = 32 \<and> bytes (5 * min 1 1) sizeof_double = 40 \<and>
   bytes (3 * 2) sizeof_double = 48 \<and>
   (\<exists>W. prefix (alloc_sizes (ex_events C 3 0 0))
          [bytes (2 * 1 * 1) sizeof_double, bytes (5 * min 1 1) sizeof_double, W])"
proof -
  have e: "alloc_sizes (ex_events Rdd 3 0 0) = [8, 32, 48]" "lworks (ex_events Rdd 3 0 0) = [- 1, 6]"
    "alloc_sizes (ex_events R 3 0 0) = [8, 24]" "lworks (ex_events R 3 0 0) = [- 1, 3]"
    "alloc_sizes (ex_events C 3 0 0) = [16, 40, 48]" "lworks (ex_events C 3 0 0) = [- 1, 3]"
    "alloc_sizes (ex_events C 2 0 0) = [16, 40, 48]" "lworks (ex_events C 2 0 0) = [- 1]"
    by (simp_all add: ex_simps obs)
  have b: "bytes (8 * min 1 1) sizeof_int = 32" "bytes (5 * min 1 1) sizeof_double = 40"
    "bytes (3 * 2) sizeof_double = 48" "bytes (2 * 1 * 1) sizeof_double = 16"
    by (simp_all add: ex_simps)
  from auxiliary_buffer_sizes [OF ex_run_def ex_events_def refl, of C 3 0 0] show ?thesis
    using e b by simp
qed

subsection \<open>The caller's input array\<close>

text \<open>Writing over cells leaves the cells outside the written run as they were.\<close>

lemma length_overwrite: "length (overwrite old i new) = length old"
  by (simp add: overwrite_def)

lemma overwrite_nth:
  assumes "j < length old"
  shows "overwrite old i new ! j =
         (if i \<le> j \<and> j < i + length new then new ! (j - i) else old ! j)"
  using assms by (auto simp: overwrite_def nth_append)

lemma overwrite_apart:
  assumes "i + n \<le> j \<or> j + length new \<le> i \<or> n = 0 \<or> new = []"
  shows "take n (drop i (overwrite old j new)) = take n (drop i old)"
  using assms
  by (intro nth_equalityI) (auto simp: length_overwrite overwrite_nth)

lemma load_upd_other: "fst p \<noteq> b \<Longrightarrow> load (\<mu>(b := x)) p n = load \<mu> p n"
  by (simp add: load_def)

lemma load_store_block:
  "fst p \<noteq> fst p' \<Longrightarrow> load (store p' ext new \<mu>) p n = load \<mu> p n"
  by (cases new; cases "\<mu> (fst p')") (simp_all add: load_def store_def)

lemma load_store_apart:
  assumes "\<not> overlap p n p' ext"
  shows "load (store p' ext new \<mu>) p n = load \<mu> p n"
proof (cases "fst p = fst p'")
  case False
  then show ?thesis
    by (rule load_store_block)
next
  case True
  show ?thesis
  proof (cases new)
    case None
    then show ?thesis
      by (simp add: store_def)
  next
    case (Some xs)
    show ?thesis
    proof (cases "\<mu> (fst p')")
      case None
      then show ?thesis
        by (simp add: store_def Some)
    next
      case old: (Some old)
      have "snd p + n \<le> snd p' \<or> snd p' + length (take ext xs) \<le> snd p \<or> n = 0 \<or>
            take ext xs = []"
        using assms True by (auto simp: overlap_def)
      then have "take n (drop (snd p) (overwrite old (snd p') (take ext xs))) =
                 take n (drop (snd p) old)"
        by (rule overwrite_apart)
      then show ?thesis
        by (simp add: load_def store_def Some old True length_overwrite)
    qed
  qed
qed

text \<open>
  A run of \<open>k\<close> cells in an array that existed before the call, overlapping none of the
  three output arrays as the kernel is given them (\<open>min ar ac\<close> doubles at \<open>sp\<close>, \<open>ar\<close> by
  \<open>ar\<close> elements at \<open>up\<close>, \<open>ac\<close> by \<open>ac\<close> at \<open>vp\<close>), holds after the call what it held
  before.
\<close>

lemma svd_l_Rdd_frame:
  assumes "fst p < brk \<sigma>" and "\<not> overlap p k sp (nat (MIN_of ar ac))"
    and "\<not> overlap p k up (nat (ar * ar))" and "\<not> overlap p k vp (nat (ac * ac))"
  shows "load (mem (snd (svd_l_Rdd E ar ac ap ur uc up sn sp vr vc vp \<sigma>))) p k =
         load (mem \<sigma>) p k"
  using assms unfolding svd_l_Rdd_def Let_def dgesdd_def
  by (simp add: int_mul_def malloc_def memcpy_if call_kernel_def free_def Let_def lwk_Rdd
      load_upd_other load_store_block load_store_apart cell_width_def
      split: cdouble.split del: double_of_int.simps)

lemma svd_l_R_frame:
  assumes "fst p < brk \<sigma>" and "\<not> overlap p k sp (nat (MIN_of ar ac))"
    and "\<not> overlap p k up (nat (ar * ar))" and "\<not> overlap p k vp (nat (ac * ac))"
  shows "load (mem (snd (svd_l_R E ar ac ap ur uc up sn sp vr vc vp \<sigma>))) p k =
         load (mem \<sigma>) p k"
  using assms unfolding svd_l_R_def Let_def dgesvd_def
  by (simp add: int_mul_def malloc_def memcpy_if call_kernel_def free_def Let_def lwork_R
      load_upd_other load_store_block load_store_apart cell_width_def split: cdouble.split)

lemma svd_l_C_frame:
  assumes "fst p < brk \<sigma>" and "\<not> overlap p k sp (nat (MIN_of ar ac))"
    and "\<not> overlap p k up (2 * nat (ar * ar))" and "\<not> overlap p k vp (2 * nat (ac * ac))"
  shows "load (mem (snd (svd_l_C E ar ac ap ur uc up sn sp vr vc vp \<sigma>))) p k =
         load (mem \<sigma>) p k"
  using assms unfolding svd_l_C_def Let_def zgesvd_def
  by (simp add: int_mul_def malloc_def memcpy_if call_kernel_def free_def Let_def lwork_R
      load_upd_other load_store_block load_store_apart cell_width_def split: cdouble.split)

text \<open>
  C9. The claim: for every invocation the contents of the caller's input array are the
  same before and after the call, since only the private copy goes to the kernel. The
  drivers hand the kernel the copy as its matrix, and with it the caller's three output
  pointers, through which the kernel writes. Nothing keeps a caller from passing an
  output pointer that reaches into the input. In the first sample run \<open>ap\<close> and \<open>up\<close> are
  the same pointer: the call returns 0, and the input \<open>5\<close> has been replaced by the left
  factor. In the second the input is the 2 by 1 matrix in the two cells of the array 0 and
  \<open>sp\<close> is \<open>ap + 1\<close>, a pointer other than \<open>ap\<close>: the shapes pass, the call returns 0,
  and the second cell of the input holds the singular value. In both runs the kernel's
  matrix argument was the private block 4.
\<close>

theorem aliased_input_overwritten:
  "fst (ex_aliased R) = Returned 0 \<and>
   load (mem ex_state) (0, 0) 1 = Some [Finite 5] \<and>
   load (mem (snd (ex_aliased R))) (0, 0) 1 = Some [Finite 1] \<and>
   matrix_ptrs (events_during ex_state (snd (ex_aliased R))) = [(4, 0), (4, 0)] \<and>
   overlap (0, 0) 1 (0, 0) 1 \<and>
   fst (ex_overlapped R) = Returned 0 \<and>
   load (mem ex_state) (0, 0) 2 = Some [Finite 5, Finite 0] \<and>
   load (mem (snd (ex_overlapped R))) (0, 0) 2 = Some [Finite 5, Finite 5] \<and>
   matrix_ptrs (events_during ex_state (snd (ex_overlapped R))) = [(4, 0), (4, 0)] \<and>
   (0 :: nat, 0 :: nat) \<noteq> (0, 1) \<and> overlap (0, 0) 2 (0, 1) 1"
  by (simp add: ex_simps obs overlap_def)

text \<open>
  C9 as amended. The input matrix is the \<open>k\<close> doubles at \<open>ap\<close>: \<open>ar*ac\<close> of them, twice as
  many in \<open>svd_l_C\<close>. When these cells lie in an array that existed before the call and
  overlap none of the three output buffers as the descriptors give them (\<open>ur*uc\<close>
  elements at \<open>up\<close>, \<open>sn\<close> doubles at \<open>sp\<close>, \<open>vr*vc\<close> elements at \<open>vp\<close>, an element
  being two doubles in \<open>svd_l_C\<close>), they hold after the call what they held before.
  Pointers into the same array are allowed as long as the runs of cells share no cell.
  Every kernel call of the invocation has the start of the private block as its matrix
  argument, never a pointer into the array of the input; and a run that reaches the
  kernel began by asking \<open>malloc\<close> for \<open>ar*ac\<close> doubles (\<open>2*ar*ac\<close> in \<open>svd_l_C\<close>) and
  copying that many bytes from \<open>ap\<close> into the block it was given.
\<close>

theorem input_preserved_unless_overlapped:
  assumes run: "run = invoke v E ar ac ap ur uc up sn sp vr vc vp \<sigma>"
    and ev: "ev = events_during \<sigma> (snd run)"
    and w: "w = (case v of Rdd \<Rightarrow> 1 | R \<Rightarrow> 1 | C \<Rightarrow> 2)"
    and k: "k = w * nat (ar * ac)"
    and old: "fst ap < brk \<sigma>"
    and sep: "\<not> overlap ap k up (w * nat (ur * uc))" "\<not> overlap ap k sp (nat sn)"
      "\<not> overlap ap k vp (w * nat (vr * vc))"
  shows "load (mem (snd run)) ap k = load (mem \<sigma>) ap k \<and>
         fst ap \<notin> fst ` set (matrix_ptrs ev) \<and> set (matrix_ptrs ev) \<subseteq> {(brk \<sigma>, 0)} \<and>
         (matrix_ptrs ev = [] \<or>
          take 2 ev =
            [Malloc (bytes (case v of Rdd \<Rightarrow> ar * ac | R \<Rightarrow> ar * ac | C \<Rightarrow> 2 * ar * ac) sizeof_double)
               (Some (brk \<sigma>)),
             Memcpy (brk \<sigma>) ap
               (bytes (case v of Rdd \<Rightarrow> ar * ac | R \<Rightarrow> ar * ac | C \<Rightarrow> 2 * ar * ac) sizeof_double)])"
proof -
  obtain out \<sigma>' where r: "invoke v E ar ac ap ur uc up sn sp vr vc vp \<sigma> = (out, \<sigma>')"
    by (cases "invoke v E ar ac ap ur uc up sn sp vr vc vp \<sigma>")
  have e: "ev = events_during \<sigma> \<sigma>'"
    by (simp add: ev run r)
  have "ar * ac * 2 = 2 * ar * ac"
    by simp
  then have c: "bytes (ar * ac * 2) sizeof_double = bytes (2 * ar * ac) sizeof_double"
    by (rule arg_cong)
  have "load (mem (snd run)) ap k = load (mem \<sigma>) ap k"
  proof (cases "ur = ar \<and> uc = ar \<and> sn = MIN_of ar ac \<and> vr = ac \<and> vc = ac")
    case False
    then have "snd run = \<sigma>"
      by (cases v) (simp_all add: run invoke_def svd_l_Rdd_def svd_l_R_def svd_l_C_def Let_def)
    then show ?thesis
      by simp
  next
    case True
    then have s: "\<not> overlap ap k sp (nat (MIN_of ar ac))"
      "\<not> overlap ap k up (w * nat (ar * ar))" "\<not> overlap ap k vp (w * nat (ac * ac))"
      using sep by simp_all
    show ?thesis
    proof (cases v)
      case Rdd
      with s w have "\<not> overlap ap k up (nat (ar * ar))" "\<not> overlap ap k vp (nat (ac * ac))"
        by simp_all
      with old s(1) show ?thesis
        by (simp add: run invoke_def Rdd svd_l_Rdd_frame)
    next
      case R
      with s w have "\<not> overlap ap k up (nat (ar * ar))" "\<not> overlap ap k vp (nat (ac * ac))"
        by simp_all
      with old s(1) show ?thesis
        by (simp add: run invoke_def R svd_l_R_frame)
    next
      case C
      with s w have "\<not> overlap ap k up (2 * nat (ar * ar))"
        "\<not> overlap ap k vp (2 * nat (ac * ac))"
        by simp_all
      with old s(1) show ?thesis
        by (simp add: run invoke_def C svd_l_C_frame)
    qed
  qed
  moreover have "fst ap \<notin> fst ` set (matrix_ptrs ev) \<and> set (matrix_ptrs ev) \<subseteq> {(brk \<sigma>, 0)} \<and>
         (matrix_ptrs ev = [] \<or>
          take 2 ev =
            [Malloc (bytes (case v of Rdd \<Rightarrow> ar * ac | R \<Rightarrow> ar * ac | C \<Rightarrow> 2 * ar * ac) sizeof_double)
               (Some (brk \<sigma>)),
             Memcpy (brk \<sigma>) ap
               (bytes (case v of Rdd \<Rightarrow> ar * ac | R \<Rightarrow> ar * ac | C \<Rightarrow> 2 * ar * ac) sizeof_double)])"
    using r
  proof (cases rule: invoke_run)
    case Rdd
    from Rdd_run [OF Rdd(2)] old show ?thesis
      by (elim disjE exE conjE) (simp_all add: obs e Rdd(1))
  next
    case R
    from R_run [OF R(2)] old show ?thesis
      by (elim disjE exE conjE) (simp_all add: obs e R(1))
  next
    case C
    from C_run [OF C(2)] old show ?thesis
      by (elim disjE exE conjE) (simp_all add: obs e C(1) c)
  qed
  ultimately show ?thesis
    by simp
qed

text \<open>
  The sample run has the input \<open>5\<close> in the first cell of the array 0 and \<open>sp\<close> at the
  second cell of the same array: the runs of cells share none, the singular value is
  written next to the input, and the input is as it was.
\<close>

theorem input_preserved_unless_overlapped_witness:
  "fst (0 :: nat, 0 :: nat) < brk ex_state \<and>
   \<not> overlap (0, 0) 1 (1, 0) 1 \<and> \<not> overlap (0, 0) 1 (0, 1) 1 \<and> \<not> overlap (0, 0) 1 (3, 0) 1 \<and>
   fst (ex_adjacent R) = Returned 0 \<and>
   mem ex_state 0 = Some [Finite 5, Finite 0] \<and>
   mem (snd (ex_adjacent R)) 0 = Some [Finite 5, Finite 5] \<and>
   load (mem ex_state) (0, 0) 1 = Some [Finite 5] \<and>
   load (mem (snd (ex_adjacent R))) (0, 0) 1 = Some [Finite 5] \<and>
   load (mem (snd (ex_adjacent R))) (0, 0) 1 = load (mem ex_state) (0, 0) 1 \<and>
   matrix_ptrs (events_during ex_state (snd (ex_adjacent R))) = [(4, 0), (4, 0)] \<and>
   take 2 (events_during ex_state (snd (ex_adjacent R))) =
     [Malloc 8 (Some 4), Memcpy 4 (0, 0) 8]"
proof -
  have h: "fst (0 :: nat, 0 :: nat) < brk ex_state"
    "\<not> overlap (0, 0) 1 (1, 0) 1" "\<not> overlap (0, 0) 1 (0, 1) 1" "\<not> overlap (0, 0) 1 (3, 0) 1"
    by (simp_all add: ex_state_def overlap_def)
  have e: "fst (ex_adjacent R) = Returned 0" "mem ex_state 0 = Some [Finite 5, Finite 0]"
    "mem (snd (ex_adjacent R)) 0 = Some [Finite 5, Finite 5]"
    "load (mem ex_state) (0, 0) 1 = Some [Finite 5]"
    "load (mem (snd (ex_adjacent R))) (0, 0) 1 = Some [Finite 5]"
    "matrix_ptrs (events_during ex_state (snd (ex_adjacent R))) = [(4, 0), (4, 0)]"
    "take 2 (events_during ex_state (snd (ex_adjacent R))) =
       [Malloc 8 (Some 4), Memcpy 4 (0, 0) 8]"
    by (simp_all add: ex_simps obs)
  from input_preserved_unless_overlapped [OF ex_adjacent_def [of R] refl refl refl]
  show ?thesis
    using h e by simp
qed

end
